theory Spec2Isabelle
  imports Complex_Main "HOL-Library.AList"
begin

section \<open>Python values, exceptions and dictionaries\<close>

text \<open>
  The plugin keeps its state in Python dictionaries. A dictionary is modelled as an
  association list in insertion order with one entry per key: \<open>map_of\<close> is the lookup
  \<open>d[k]\<close> / \<open>d.get(k)\<close>, and \<open>AList.update k v\<close> is the assignment \<open>d[k] = v\<close> (it
  replaces the value of an existing key in place and appends a new key at the end).
  Every exception the modelled code can raise is a value of \<open>error\<close>.
\<close>

datatype error = KeyError | TypeError

text \<open>The two closures \<open>lambda: view.show()\<close> and \<open>lambda: view.hide()\<close> bound in the menu.\<close>

datatype action = ViewShow | ViewHide

text \<open>The values stored in a menu entry.\<close>

datatype val =
    VStr string
  | VBool bool
  | VInt int
  | VIds "int list"
  | VCallable action

type_synonym item = "(string \<times> val) list"

text \<open>The values of the item service's D-Bus properties.\<close>

datatype variant =
    DStr string
  | DBool bool
  | DInt int
  | DArray "variant list"
  | DStruct "variant list"
  | DObjectPath string

section \<open>StatusNotifierItem\<close>

definition STATUS_NOTIFIER_ITEM_IFACE :: string where
  "STATUS_NOTIFIER_ITEM_IFACE = ''org.kde.StatusNotifierItem''"

definition Passive :: string where
  "Passive = ''Passive''"

definition Active :: string where
  "Active = ''Active''"

definition ApplicationStatus :: string where
  "ApplicationStatus = ''ApplicationStatus''"

text \<open>
  A signal emitted by the item object:
  \<open>PropertiesChanged(interface_name, changed_properties, invalidated_properties)\<close>.
\<close>

datatype item_signal =
  PropertiesChanged string "(string \<times> variant) list" "string list"

text \<open>
  The instance attributes of \<open>StatusNotifierItem\<close>, and the signals the object has
  emitted so far, oldest first.
\<close>

record StatusNotifierItem =
  category :: string
  status :: string
  icon_name :: string
  dbus_interfaces :: "(string \<times> (string \<times> variant) list) list"
  item_signals :: "item_signal list"

text \<open>
  \<open>StatusNotifierItem.__init__\<close>. The property table \<open>_dbus_interfaces\<close> copies the
  status and the icon name of that moment. (The registration call to the watcher is a
  call to another process and is no part of the model.)
\<close>

definition StatusNotifierItem_init :: StatusNotifierItem where
  "StatusNotifierItem_init =
     \<lparr> category = ApplicationStatus,
       status = Passive,
       icon_name = ''tomate-idle'',
       dbus_interfaces =
         [(STATUS_NOTIFIER_ITEM_IFACE,
           [(''AttentionIconName'', DStr ''tomate-attention''),
            (''AttentionIconPixmap'', DArray []),
            (''Category'', DStr ApplicationStatus),
            (''IconName'', DStr ''tomate-idle''),
            (''IconPixmap'', DArray []),
            (''Id'', DStr ''tomate''),
            (''ItemIsMenu'', DBool False),
            (''Menu'', DObjectPath ''/MenuBar''),
            (''OverlayIconName'', DStr ''''),
            (''OverlayIconPixmap'', DArray []),
            (''Status'', DStr Passive),
            (''Title'', DStr ''Tomate''),
            (''ToolTip'', DStruct [DStr '''', DArray [], DStr '''', DStr '''']),
            (''WindowId'', DInt 0)])],
       item_signals = [] \<rparr>"

definition change_icon :: "string \<Rightarrow> StatusNotifierItem \<Rightarrow> StatusNotifierItem" where
  "change_icon new_icon s =
     (if icon_name s = new_icon then s
      else s\<lparr> icon_name := new_icon,
              item_signals := item_signals s @
                [PropertiesChanged STATUS_NOTIFIER_ITEM_IFACE [(''IconName'', DStr new_icon)] []] \<rparr>)"

definition change_status :: "string \<Rightarrow> StatusNotifierItem \<Rightarrow> StatusNotifierItem" where
  "change_status new_status s =
     (if status s = new_status then s
      else s\<lparr> status := new_status,
              item_signals := item_signals s @
                [PropertiesChanged STATUS_NOTIFIER_ITEM_IFACE [(''Status'', DStr new_status)] []] \<rparr>)"

text \<open>
  \<open>Get\<close>: two chained \<open>dict.get\<close> calls, the first with the default \<open>{}\<close>; the
  result \<open>None\<close> is Python's \<open>None\<close>.
\<close>

definition StatusNotifierItem_Get :: "StatusNotifierItem \<Rightarrow> string \<Rightarrow> string \<Rightarrow> variant option" where
  "StatusNotifierItem_Get s interface_name property_name =
     map_of (case map_of (dbus_interfaces s) interface_name of
               None \<Rightarrow> []
             | Some props \<Rightarrow> props) property_name"

text \<open>
  \<open>GetAll\<close>: \<open>dict.get\<close> whose default, the table of the item interface, is looked
  up (and may raise) before \<open>get\<close> is called.
\<close>

definition StatusNotifierItem_GetAll :: "StatusNotifierItem \<Rightarrow> string \<Rightarrow> error + (string \<times> variant) list" where
  "StatusNotifierItem_GetAll s interface_name =
     (case map_of (dbus_interfaces s) STATUS_NOTIFIER_ITEM_IFACE of
        None \<Rightarrow> Inl KeyError
      | Some fallback \<Rightarrow>
          Inr (case map_of (dbus_interfaces s) interface_name of
                 None \<Rightarrow> fallback
               | Some props \<Rightarrow> props))"

text \<open>
  The states of the item object: the one \<open>__init__\<close> builds, and every state one of the
  two mutating methods produces from a state of the object.
\<close>

inductive item_reachable :: "StatusNotifierItem \<Rightarrow> bool" where
  item_init: "item_reachable StatusNotifierItem_init"
| item_change_status: "item_reachable s \<Longrightarrow> item_reachable (change_status new_status s)"
| item_change_icon: "item_reachable s \<Longrightarrow> item_reachable (change_icon new_icon s)"

section \<open>DbusMenu\<close>

definition ATTRIBUTES :: "string list" where
  "ATTRIBUTES =
     [''children-display'', ''disposition'', ''enabled'', ''label'',
      ''toggle-state'', ''toggle-type'', ''type'', ''visible'']"

definition SHOW :: int where
  "SHOW = 1"

definition HIDE :: int where
  "HIDE = 2"

text \<open>
  A signal emitted by the menu object:
  \<open>ItemsPropertiesUpdated(update_props, remove_props)\<close>.
\<close>

datatype menu_signal =
  ItemsPropertiesUpdated "(int \<times> item) list" "(int \<times> string list) list"

text \<open>
  The instance attributes of \<open>DbusMenu\<close>; \<open>view\<close> holds the calls the captured view
  object has received through the bound closures, and \<open>menu_signals\<close> the signals
  emitted so far, both oldest first.
\<close>

record DbusMenu =
  revision :: nat
  items :: "(int \<times> item) list"
  view :: "action list"
  menu_signals :: "menu_signal list"

definition DbusMenu_init :: DbusMenu where
  "DbusMenu_init =
     \<lparr> revision = 0,
       items =
         [(0,
           [(''children-display'', VStr ''submenu''),
            (''disposition'', VStr ''normal''),
            (''enabled'', VBool True),
            (''label'', VStr ''''),
            (''toggle-state'', VInt (- 1)),
            (''toggle-type'', VStr ''''),
            (''type'', VStr ''standard''),
            (''visible'', VBool True),
            (''submenu'', VIds [1, 2])]),
          (SHOW,
           [(''children-display'', VStr ''''),
            (''disposition'', VStr ''normal''),
            (''enabled'', VBool True),
            (''label'', VStr ''Show''),
            (''toggle-state'', VInt (- 1)),
            (''toggle-type'', VStr ''''),
            (''type'', VStr ''standard''),
            (''visible'', VBool False),
            (''clicked'', VCallable ViewShow)]),
          (HIDE,
           [(''children-display'', VStr ''''),
            (''disposition'', VStr ''normal''),
            (''enabled'', VBool True),
            (''label'', VStr ''Hide''),
            (''toggle-state'', VInt (- 1)),
            (''toggle-type'', VStr ''''),
            (''type'', VStr ''standard''),
            (''visible'', VBool True),
            (''clicked'', VCallable ViewHide)])],
       view = [],
       menu_signals = [] \<rparr>"

text \<open>
  The dictionary comprehension \<open>{k: item[k] for k in properties}\<close>: the keys are
  inserted from left to right into the dictionary built so far, and the first key the
  entry lacks raises \<open>KeyError\<close>.
\<close>

fun dict_comprehension :: "item \<Rightarrow> string list \<Rightarrow> item \<Rightarrow> error + item" where
  "dict_comprehension item [] acc = Inr acc"
| "dict_comprehension item (k # ks) acc =
     (case map_of item k of
        None \<Rightarrow> Inl KeyError
      | Some v \<Rightarrow> dict_comprehension item ks (AList.update k v acc))"

text \<open>
  \<open>_render_item\<close>; the filter \<open>None\<close> is the default argument \<open>properties=None\<close>.
  Its first statement replaces an absent or empty filter by \<open>ATTRIBUTES\<close>.
\<close>

definition selected_properties :: "string list option \<Rightarrow> string list" where
  "selected_properties properties =
     (case properties of
        None \<Rightarrow> ATTRIBUTES
      | Some ps \<Rightarrow> if length ps = 0 then ATTRIBUTES else ps)"

definition render_item :: "item \<Rightarrow> string list option \<Rightarrow> error + item" where
  "render_item item properties =
     dict_comprehension item (selected_properties properties) []"

text \<open>A node \<open>(idx, properties, children)\<close> of a rendered layout.\<close>

datatype layout = Layout int item "layout list"

text \<open>The list comprehension of \<open>_render_submenu\<close> over the child ids.\<close>

fun render_children :: "(int \<times> item) list \<Rightarrow> int list \<Rightarrow> string list option \<Rightarrow> error + layout list" where
  "render_children its [] properties = Inr []"
| "render_children its (idx # rest) properties =
     (case map_of its idx of
        None \<Rightarrow> Inl KeyError
      | Some child \<Rightarrow>
          (case render_item child properties of
             Inl e \<Rightarrow> Inl e
           | Inr props \<Rightarrow>
               (case render_children its rest properties of
                  Inl e \<Rightarrow> Inl e
                | Inr ls \<Rightarrow> Inr (Layout idx props [] # ls))))"

text \<open>
  \<open>_render_submenu\<close>. The value under \<open>submenu\<close> is iterated: a list of ids gives
  the children; a string gives its characters, none of which is a key of \<open>items\<close>;
  the other values are not iterable.
\<close>

definition render_submenu :: "(int \<times> item) list \<Rightarrow> item \<Rightarrow> string list option \<Rightarrow> error + layout list" where
  "render_submenu its item properties =
     (case map_of item ''submenu'' of
        None \<Rightarrow> Inr []
      | Some (VIds ids) \<Rightarrow> render_children its ids properties
      | Some (VStr s) \<Rightarrow> (if s = [] then Inr [] else Inl KeyError)
      | Some _ \<Rightarrow> Inl TypeError)"

definition GetLayout :: "DbusMenu \<Rightarrow> int \<Rightarrow> int \<Rightarrow> string list option \<Rightarrow> error + (nat \<times> layout)" where
  "GetLayout m parent_id recursion_depth property_names =
     (case map_of (items m) parent_id of
        None \<Rightarrow> Inl KeyError
      | Some parent \<Rightarrow>
          (case render_item parent property_names of
             Inl e \<Rightarrow> Inl e
           | Inr props \<Rightarrow>
               (case render_submenu (items m) parent property_names of
                  Inl e \<Rightarrow> Inl e
                | Inr children \<Rightarrow> Inr (revision m, Layout parent_id props children))))"

text \<open>
  \<open>Event\<close>: \<open>self.items[idx].get(event_id, lambda: None)()\<close>. The value found under
  \<open>event_id\<close> is called; only the bound closures are callable, and calling one reaches
  the view. The arguments \<open>data\<close> and \<open>timestamp\<close> are not used.
\<close>

definition Event :: "int \<Rightarrow> string \<Rightarrow> val \<Rightarrow> nat \<Rightarrow> DbusMenu \<Rightarrow> (error + unit) \<times> DbusMenu" where
  "Event idx event_id data timestamp m =
     (case map_of (items m) idx of
        None \<Rightarrow> (Inl KeyError, m)
      | Some item \<Rightarrow>
          (case map_of item event_id of
             None \<Rightarrow> (Inr (), m)
           | Some (VCallable a) \<Rightarrow> (Inr (), m\<lparr> view := view m @ [a] \<rparr>)
           | Some _ \<Rightarrow> (Inl TypeError, m)))"

text \<open>\<open>EventGroup\<close>: the body is \<open>return dbus.Array(signature="i")\<close>.\<close>

definition EventGroup :: "(int \<times> string \<times> val \<times> nat) list \<Rightarrow> DbusMenu \<Rightarrow> int list \<times> DbusMenu" where
  "EventGroup events m = ([], m)"

definition GetProperty :: "DbusMenu \<Rightarrow> int \<Rightarrow> string \<Rightarrow> error + val" where
  "GetProperty m idx name =
     (case map_of (items m) idx of
        None \<Rightarrow> Inl KeyError
      | Some item \<Rightarrow>
          (case map_of item name of
             None \<Rightarrow> Inl KeyError
           | Some v \<Rightarrow> Inr v))"

text \<open>The list comprehension of \<open>GetGroupProperties\<close>, with its guard \<open>idx in self.items.keys()\<close>.\<close>

fun group_properties :: "(int \<times> item) list \<Rightarrow> int list \<Rightarrow> string list option \<Rightarrow> error + (int \<times> item) list" where
  "group_properties its [] property_names = Inr []"
| "group_properties its (idx # ids) property_names =
     (case map_of its idx of
        None \<Rightarrow> group_properties its ids property_names
      | Some item \<Rightarrow>
          (case render_item item property_names of
             Inl e \<Rightarrow> Inl e
           | Inr props \<Rightarrow>
               (case group_properties its ids property_names of
                  Inl e \<Rightarrow> Inl e
                | Inr rest \<Rightarrow> Inr ((idx, props) # rest))))"

definition GetGroupProperties :: "DbusMenu \<Rightarrow> int list \<Rightarrow> string list option \<Rightarrow> error + (int \<times> item) list" where
  "GetGroupProperties m ids property_names = group_properties (items m) ids property_names"

definition AboutToShow :: "DbusMenu \<Rightarrow> int \<Rightarrow> bool" where
  "AboutToShow m idx = False"

text \<open>The assignment \<open>self.items[idx]["visible"] = b\<close>.\<close>

definition set_visible :: "int \<Rightarrow> bool \<Rightarrow> (int \<times> item) list \<Rightarrow> error + (int \<times> item) list" where
  "set_visible idx b its =
     (case map_of its idx of
        None \<Rightarrow> Inl KeyError
      | Some item \<Rightarrow> Inr (AList.update idx (AList.update ''visible'' (VBool b) item) its))"

text \<open>The list comprehension of \<open>update_menu\<close> over \<open>self.items.items()\<close>.\<close>

fun render_all :: "(int \<times> item) list \<Rightarrow> error + (int \<times> item) list" where
  "render_all [] = Inr []"
| "render_all ((idx, item) # rest) =
     (case render_item item None of
        Inl e \<Rightarrow> Inl e
      | Inr props \<Rightarrow>
          (case render_all rest of
             Inl e \<Rightarrow> Inl e
           | Inr ps \<Rightarrow> Inr ((idx, props) # ps)))"

text \<open>
  \<open>update_menu\<close>. An exception leaves the assignments made before it in place, so the
  state is returned beside the outcome.
\<close>

definition update_menu :: "bool \<Rightarrow> DbusMenu \<Rightarrow> (error + unit) \<times> DbusMenu" where
  "update_menu is_visible m =
     (case set_visible SHOW (\<not> is_visible) (items m) of
        Inl e \<Rightarrow> (Inl e, m)
      | Inr its1 \<Rightarrow>
          (case set_visible HIDE is_visible its1 of
             Inl e \<Rightarrow> (Inl e, m\<lparr> items := its1 \<rparr>)
           | Inr its2 \<Rightarrow>
               (case render_all its2 of
                  Inl e \<Rightarrow> (Inl e, m\<lparr> items := its2 \<rparr>)
                | Inr payload \<Rightarrow>
                    (Inr (),
                     m\<lparr> items := its2,
                        menu_signals := menu_signals m @ [ItemsPropertiesUpdated payload []] \<rparr>))))"

text \<open>
  The states of the menu object: the one \<open>__init__\<close> builds, and every state a method
  of the object leaves behind when called on a state of the object.
\<close>

inductive menu_reachable :: "DbusMenu \<Rightarrow> bool" where
  menu_init: "menu_reachable DbusMenu_init"
| menu_update: "menu_reachable m \<Longrightarrow> menu_reachable (snd (update_menu is_visible m))"
| menu_event: "menu_reachable m \<Longrightarrow> menu_reachable (snd (Event idx event_id data timestamp m))"
| menu_event_group: "menu_reachable m \<Longrightarrow> menu_reachable (snd (EventGroup events m))"

section \<open>StatusNotifierItemPlugin\<close>

text \<open>
  The format specification \<open>{:02.0f}\<close>. The argument is the exact value of the number
  formatted, a rational. Fixed-point notation with no fractional digit rounds that value
  to the nearest integer, a tie to the even one; a negative value has the sign \<open>-\<close>;
  the digits are padded with zeros after the sign to the least width 2.
\<close>

definition round_half_even :: "rat \<Rightarrow> int" where
  "round_half_even x =
     (let f = \<lfloor>x\<rfloor>; d = x - of_int f
      in if d < 1 / 2 then f
         else if 1 / 2 < d then f + 1
         else if even f then f else f + 1)"

definition digit :: "nat \<Rightarrow> char" where
  "digit d = ''0123456789'' ! d"

fun decimal :: "nat \<Rightarrow> string" where
  "decimal n = (if n < 10 then [digit n] else decimal (n div 10) @ [digit (n mod 10)])"

definition format_02_0f :: "rat \<Rightarrow> string" where
  "format_02_0f x =
     (let digits = decimal (nat (round_half_even \<bar>x\<bar>));
          sign = (if x < 0 then ''-'' else '''')
      in sign @ replicate (2 - (length sign + length digits)) (CHR ''0'') @ digits)"

text \<open>The static method \<open>icon_name\<close> of the plugin.\<close>

definition plugin_icon_name :: "rat \<Rightarrow> string" where
  "plugin_icon_name percent = ''tomate-'' @ format_02_0f percent"

text \<open>
  The plugin after \<open>configure\<close>: the two service objects, and the flag
  \<open>is_activated\<close> that the plugin base class of the host application keeps (false
  until \<open>activate\<close>, false again after \<open>deactivate\<close>).
\<close>

record StatusNotifierItemPlugin =
  is_activated :: bool
  status_item :: StatusNotifierItem
  dbus_menu :: DbusMenu

definition configure :: StatusNotifierItemPlugin where
  "configure =
     \<lparr> is_activated = False,
       status_item = StatusNotifierItem_init,
       dbus_menu = DbusMenu_init \<rparr>"

definition plugin_change_icon :: "string \<Rightarrow> StatusNotifierItemPlugin \<Rightarrow> StatusNotifierItemPlugin" where
  "plugin_change_icon new_icon p =
     (if is_activated p then p\<lparr> status_item := change_icon new_icon (status_item p) \<rparr> else p)"

definition plugin_change_status :: "string \<Rightarrow> StatusNotifierItemPlugin \<Rightarrow> StatusNotifierItemPlugin" where
  "plugin_change_status new_status p =
     (if is_activated p then p\<lparr> status_item := change_status new_status (status_item p) \<rparr> else p)"

definition change_visibility :: "bool \<Rightarrow> StatusNotifierItemPlugin \<Rightarrow> (error + unit) \<times> StatusNotifierItemPlugin" where
  "change_visibility view_is_visible p =
     (if is_activated p
      then (case update_menu view_is_visible (dbus_menu p) of
              (r, m) \<Rightarrow> (r, p\<lparr> dbus_menu := m \<rparr>))
      else (Inr (), p))"

text \<open>
  \<open>activate\<close> and \<open>deactivate\<close>; \<open>session_is_running\<close> is the answer of the
  host's \<open>session.is_running()\<close>.
\<close>

definition activate :: "bool \<Rightarrow> StatusNotifierItemPlugin \<Rightarrow> StatusNotifierItemPlugin" where
  "activate session_is_running p =
     (let p' = p\<lparr> is_activated := True \<rparr>
      in if session_is_running then plugin_change_status Active p' else p')"

definition deactivate :: "StatusNotifierItemPlugin \<Rightarrow> StatusNotifierItemPlugin" where
  "deactivate p = (plugin_change_status Passive p)\<lparr> is_activated := False \<rparr>"

text \<open>
  The handlers under \<open>@suppress_errors\<close> swallow an exception of their body: they return
  the state the body left, whatever its outcome.
\<close>

definition on_session_start :: "StatusNotifierItemPlugin \<Rightarrow> StatusNotifierItemPlugin" where
  "on_session_start p = snd (change_visibility True (plugin_change_status Active p))"

definition on_session_stop :: "StatusNotifierItemPlugin \<Rightarrow> StatusNotifierItemPlugin" where
  "on_session_stop p = plugin_change_status Passive p"

definition on_timer_update :: "rat \<Rightarrow> StatusNotifierItemPlugin \<Rightarrow> StatusNotifierItemPlugin" where
  "on_timer_update elapsed_percent p = plugin_change_icon (plugin_icon_name elapsed_percent) p"

definition on_window_show :: "StatusNotifierItemPlugin \<Rightarrow> (error + unit) \<times> StatusNotifierItemPlugin" where
  "on_window_show p = change_visibility True p"

definition on_window_hide :: "StatusNotifierItemPlugin \<Rightarrow> (error + unit) \<times> StatusNotifierItemPlugin" where
  "on_window_hide p = change_visibility False p"

section \<open>Auxiliary notions for the statements\<close>

text \<open>
  The \<open>items\<close> dictionary that \<open>update_menu\<close> leaves behind on the freshly built
  menu; the states of the menu object have no other \<open>items\<close>.
\<close>

definition menu_items :: "bool \<Rightarrow> (int \<times> item) list" where
  "menu_items is_visible = items (snd (update_menu is_visible DbusMenu_init))"

text \<open>All the property maps of a rendered layout, the node's own first.\<close>

fun layout_properties :: "layout \<Rightarrow> item list" where
  "layout_properties (Layout idx props children) =
     props # concat (map layout_properties children)"

section \<open>Properties of the item service\<close>

lemma change_status_dbus_interfaces:
  "dbus_interfaces (change_status new_status s) = dbus_interfaces s"
  by (simp add: change_status_def)

lemma change_icon_dbus_interfaces:
  "dbus_interfaces (change_icon new_icon s) = dbus_interfaces s"
  by (simp add: change_icon_def)

lemma item_reachable_dbus_interfaces:
  "item_reachable s \<Longrightarrow> dbus_interfaces s = dbus_interfaces StatusNotifierItem_init"
  by (induction rule: item_reachable.induct)
     (simp_all add: change_status_dbus_interfaces change_icon_dbus_interfaces)

text \<open>
  Claim C4, as the code has it. \<open>change_status\<close> called with the current status returns
  the object unchanged, so it emits nothing; with another status it stores that status
  and emits exactly one \<open>PropertiesChanged\<close> signal that carries the \<open>Status\<close>
  property alone. \<open>change_icon\<close> follows the same rule for \<open>IconName\<close>. A second call
  with the same status changes nothing more: two calls in a row emit one signal in total
  when the status differed before the first call, and none when it did not.
\<close>

theorem change_status_change_icon_notify_on_change:
  "(status s = new_status \<longrightarrow> change_status new_status s = s) \<and>
   (status s \<noteq> new_status \<longrightarrow>
      change_status new_status s =
        s\<lparr> status := new_status,
           item_signals := item_signals s @
             [PropertiesChanged STATUS_NOTIFIER_ITEM_IFACE [(''Status'', DStr new_status)] []] \<rparr>) \<and>
   (icon_name s = new_icon \<longrightarrow> change_icon new_icon s = s) \<and>
   (icon_name s \<noteq> new_icon \<longrightarrow>
      change_icon new_icon s =
        s\<lparr> icon_name := new_icon,
           item_signals := item_signals s @
             [PropertiesChanged STATUS_NOTIFIER_ITEM_IFACE [(''IconName'', DStr new_icon)] []] \<rparr>) \<and>
   change_status new_status (change_status new_status s) = change_status new_status s \<and>
   (status s \<noteq> new_status \<longrightarrow>
      item_signals (change_status new_status (change_status new_status s)) =
        item_signals s @
          [PropertiesChanged STATUS_NOTIFIER_ITEM_IFACE [(''Status'', DStr new_status)] []]) \<and>
   (status s = new_status \<longrightarrow>
      item_signals (change_status new_status (change_status new_status s)) = item_signals s)"
  by (simp add: change_status_def change_icon_def)

theorem change_status_change_icon_notify_on_change_witness:
  "change_status Active StatusNotifierItem_init =
     StatusNotifierItem_init
       \<lparr> status := Active,
         item_signals :=
           [PropertiesChanged STATUS_NOTIFIER_ITEM_IFACE [(''Status'', DStr Active)] []] \<rparr> \<and>
   change_status Passive StatusNotifierItem_init = StatusNotifierItem_init \<and>
   change_icon ''tomate-50'' StatusNotifierItem_init =
     StatusNotifierItem_init
       \<lparr> icon_name := ''tomate-50'',
         item_signals :=
           [PropertiesChanged STATUS_NOTIFIER_ITEM_IFACE [(''IconName'', DStr ''tomate-50'')] []] \<rparr> \<and>
   change_icon ''tomate-idle'' StatusNotifierItem_init = StatusNotifierItem_init \<and>
   item_signals (change_status Active (change_status Active StatusNotifierItem_init)) =
     [PropertiesChanged STATUS_NOTIFIER_ITEM_IFACE [(''Status'', DStr Active)] []]"
proof -
  have init:
    "status StatusNotifierItem_init = Passive"
    "icon_name StatusNotifierItem_init = ''tomate-idle''"
    "item_signals StatusNotifierItem_init = []"
    by (simp_all add: StatusNotifierItem_init_def)
  have neq: "Passive \<noteq> Active" "''tomate-idle'' \<noteq> ''tomate-50''"
    by (simp_all add: Active_def Passive_def)
  from change_status_change_icon_notify_on_change
         [of StatusNotifierItem_init Active "''tomate-50''"]
       change_status_change_icon_notify_on_change
         [of StatusNotifierItem_init Passive "''tomate-idle''"]
  show ?thesis
    by (simp add: init neq change_status_def)
qed

text \<open>
  The last sentence of claim C4 as it is written, "two calls in a row with the same
  status emit exactly one notification in total", fails when that status is already the
  current one: on the freshly built object, whose status is \<open>Passive\<close>, two calls of
  \<open>change_status Passive\<close> emit no signal at all.
\<close>

theorem change_status_twice_counterexample:
  "item_signals (change_status Passive (change_status Passive StatusNotifierItem_init)) = []"
  by (simp add: change_status_def StatusNotifierItem_init_def)

text \<open>
  Claim C6, as the code has it. In every state of the item object neither getter fails.
  \<open>Get\<close> answers \<open>None\<close> for an interface other than the item interface and for a
  property name that is none of the fourteen of the table. \<open>GetAll\<close> answers, for every
  interface name, known or not, the table of the item interface with its fourteen
  properties.
\<close>

theorem Get_GetAll_unknown_names:
  assumes "item_reachable s"
  shows "(interface_name \<noteq> STATUS_NOTIFIER_ITEM_IFACE \<longrightarrow>
            StatusNotifierItem_Get s interface_name property_name = None) \<and>
         (property_name \<notin> set [''AttentionIconName'', ''AttentionIconPixmap'', ''Category'',
              ''IconName'', ''IconPixmap'', ''Id'', ''ItemIsMenu'', ''Menu'', ''OverlayIconName'',
              ''OverlayIconPixmap'', ''Status'', ''Title'', ''ToolTip'', ''WindowId''] \<longrightarrow>
            StatusNotifierItem_Get s interface_name property_name = None) \<and>
         (\<exists>props. StatusNotifierItem_GetAll s interface_name = Inr props \<and>
            StatusNotifierItem_GetAll s STATUS_NOTIFIER_ITEM_IFACE = Inr props \<and>
            map fst props = [''AttentionIconName'', ''AttentionIconPixmap'', ''Category'',
              ''IconName'', ''IconPixmap'', ''Id'', ''ItemIsMenu'', ''Menu'', ''OverlayIconName'',
              ''OverlayIconPixmap'', ''Status'', ''Title'', ''ToolTip'', ''WindowId''])"
proof -
  have tbl: "dbus_interfaces s = dbus_interfaces StatusNotifierItem_init"
    using assms by (rule item_reachable_dbus_interfaces)
  show ?thesis
    by (simp add: tbl StatusNotifierItem_Get_def StatusNotifierItem_GetAll_def
          StatusNotifierItem_init_def)
qed

theorem Get_GetAll_unknown_names_witness:
  "item_reachable (change_status Active StatusNotifierItem_init) \<and>
   StatusNotifierItem_Get (change_status Active StatusNotifierItem_init)
     ''org.example.Unknown'' ''Status'' = None \<and>
   StatusNotifierItem_Get (change_status Active StatusNotifierItem_init)
     STATUS_NOTIFIER_ITEM_IFACE ''Colour'' = None \<and>
   (\<exists>props. StatusNotifierItem_GetAll (change_status Active StatusNotifierItem_init)
        ''org.example.Unknown'' = Inr props \<and> length props = 14)"
proof -
  have r: "item_reachable (change_status Active StatusNotifierItem_init)"
    by (rule item_change_status) (rule item_init)
  have u: "''org.example.Unknown'' \<noteq> STATUS_NOTIFIER_ITEM_IFACE"
    by (simp add: STATUS_NOTIFIER_ITEM_IFACE_def)
  from Get_GetAll_unknown_names [OF r, of "''org.example.Unknown''" "''Status''"]
       Get_GetAll_unknown_names [OF r, of STATUS_NOTIFIER_ITEM_IFACE "''Colour''"] r u
  show ?thesis
    by (auto dest: arg_cong [where f = length])
qed

text \<open>
  Claim C6 as it is written promises an empty result of \<open>GetAll\<close> for an unknown
  interface. The code answers the table of the item interface instead.
\<close>

theorem GetAll_unknown_interface_counterexample:
  "StatusNotifierItem_GetAll StatusNotifierItem_init ''org.example.Unknown'' \<noteq> Inr [] \<and>
   StatusNotifierItem_GetAll StatusNotifierItem_init ''org.example.Unknown'' =
     StatusNotifierItem_GetAll StatusNotifierItem_init STATUS_NOTIFIER_ITEM_IFACE"
  by (simp add: StatusNotifierItem_GetAll_def StatusNotifierItem_init_def
        STATUS_NOTIFIER_ITEM_IFACE_def)

section \<open>Properties of the menu service\<close>

subsection \<open>The states of the menu\<close>

lemmas menu_eval =
  DbusMenu_init_def SHOW_def HIDE_def ATTRIBUTES_def update_menu_def set_visible_def
  render_item_def selected_properties_def

text \<open>
  Only the two \<open>visible\<close> flags of the Show and Hide entries ever differ from the
  dictionary that \<open>__init__\<close> builds.
\<close>

lemma menu_items_eq:
  "menu_items v =
     [(0,
       [(''children-display'', VStr ''submenu''),
        (''disposition'', VStr ''normal''),
        (''enabled'', VBool True),
        (''label'', VStr ''''),
        (''toggle-state'', VInt (- 1)),
        (''toggle-type'', VStr ''''),
        (''type'', VStr ''standard''),
        (''visible'', VBool True),
        (''submenu'', VIds [1, 2])]),
      (1,
       [(''children-display'', VStr ''''),
        (''disposition'', VStr ''normal''),
        (''enabled'', VBool True),
        (''label'', VStr ''Show''),
        (''toggle-state'', VInt (- 1)),
        (''toggle-type'', VStr ''''),
        (''type'', VStr ''standard''),
        (''visible'', VBool (\<not> v)),
        (''clicked'', VCallable ViewShow)]),
      (2,
       [(''children-display'', VStr ''''),
        (''disposition'', VStr ''normal''),
        (''enabled'', VBool True),
        (''label'', VStr ''Hide''),
        (''toggle-state'', VInt (- 1)),
        (''toggle-type'', VStr ''''),
        (''type'', VStr ''standard''),
        (''visible'', VBool v),
        (''clicked'', VCallable ViewHide)])]"
  by (simp add: menu_items_def menu_eval)

lemma items_init: "items DbusMenu_init = menu_items True"
  by (simp add: menu_items_eq) (simp add: DbusMenu_init_def SHOW_def HIDE_def)

lemma update_menu_menu_items:
  assumes "items m = menu_items b"
  shows "fst (update_menu v m) = Inr ()"
    and "items (snd (update_menu v m)) = menu_items v"
    and "view (snd (update_menu v m)) = view m"
    and "revision (snd (update_menu v m)) = revision m"
  using assms by (simp_all add: menu_items_eq menu_eval)

lemma Event_items: "items (snd (Event idx event_id data timestamp m)) = items m"
  by (simp add: Event_def split: option.splits val.splits)

lemma menu_reachable_items: "menu_reachable m \<Longrightarrow> \<exists>b. items m = menu_items b"
proof (induction rule: menu_reachable.induct)
  case menu_init
  show ?case using items_init by blast
next
  case (menu_update m is_visible)
  then show ?case using update_menu_menu_items(2) by blast
next
  case (menu_event m idx event_id data timestamp)
  then show ?case by (simp add: Event_items)
next
  case (menu_event_group m events)
  then show ?case by (simp add: EventGroup_def)
qed

subsection \<open>Layout queries\<close>

text \<open>
  Claim C1 asks that \<open>GetLayout\<close> with recursion depth 0 return the parent with an
  empty children array. The code never reads \<open>recursion_depth\<close>: on the freshly built
  menu, \<open>GetLayout(0, 0, [])\<close> returns the root together with both rendered children,
  the same answer as for depth -1.
\<close>

theorem GetLayout_depth_0_renders_children:
  "GetLayout DbusMenu_init 0 0 (Some []) =
     Inr (0, Layout 0
          [(''children-display'', VStr ''submenu''),
           (''disposition'', VStr ''normal''), (''enabled'', VBool True),
           (''label'', VStr ''''), (''toggle-state'', VInt (- 1)),
           (''toggle-type'', VStr ''''), (''type'', VStr ''standard''),
           (''visible'', VBool True)]
          [Layout 1
            [(''children-display'', VStr ''''),
             (''disposition'', VStr ''normal''), (''enabled'', VBool True),
             (''label'', VStr ''Show''), (''toggle-state'', VInt (- 1)),
             (''toggle-type'', VStr ''''), (''type'', VStr ''standard''),
             (''visible'', VBool False)]
            [],
           Layout 2
            [(''children-display'', VStr ''''),
             (''disposition'', VStr ''normal''), (''enabled'', VBool True),
             (''label'', VStr ''Hide''), (''toggle-state'', VInt (- 1)),
             (''toggle-type'', VStr ''''), (''type'', VStr ''standard''),
             (''visible'', VBool True)]
            []])"
  by (simp add: GetLayout_def render_submenu_def menu_eval)

subsection \<open>Event dispatch\<close>

text \<open>
  Claim C2 asks that \<open>EventGroup\<close> dispatch every event of the batch and return the ids
  it could not find. The code returns an empty array and does nothing else: for the
  batch of a click on Hide and a click on the unknown id 9999, the view receives no call
  and the answer is \<open>[]\<close>, not \<open>[9999]\<close>.
\<close>

theorem EventGroup_ignores_batch:
  "EventGroup [(HIDE, ''clicked'', VInt 0, 0), (9999, ''clicked'', VInt 0, 0)] DbusMenu_init =
     ([], DbusMenu_init)"
  by (simp add: EventGroup_def)

text \<open>
  Claim C3, as the code has it. In every state of the menu, \<open>Event\<close> with the event id
  \<open>clicked\<close> on the Show or the Hide entry calls the bound closure exactly once (one
  call more reaches the view) and changes nothing else; \<open>clicked\<close> on the root, which
  has no bound action, and any event id that is not a key of the entries (so
  \<open>hovered\<close>, \<open>opened\<close>, \<open>closed\<close> and every vendor-prefixed id) on any of the three
  entries return without effect; an id that is not in the model raises \<open>KeyError\<close> and
  leaves the state as it was.
\<close>

theorem Event_dispatch:
  assumes "menu_reachable m"
  shows "Event SHOW ''clicked'' data timestamp m =
           (Inr (), m\<lparr> view := view m @ [ViewShow] \<rparr>) \<and>
         Event HIDE ''clicked'' data timestamp m =
           (Inr (), m\<lparr> view := view m @ [ViewHide] \<rparr>) \<and>
         Event 0 ''clicked'' data timestamp m = (Inr (), m) \<and>
         (idx \<in> {0, SHOW, HIDE} \<and> event_id \<notin> set (ATTRIBUTES @ [''submenu'', ''clicked'']) \<longrightarrow>
            Event idx event_id data timestamp m = (Inr (), m)) \<and>
         (idx \<notin> {0, SHOW, HIDE} \<longrightarrow>
            Event idx event_id data timestamp m = (Inl KeyError, m))"
proof -
  from assms obtain b where its: "items m = menu_items b"
    using menu_reachable_items by blast
  show ?thesis
    by (auto simp add: Event_def its menu_items_eq SHOW_def HIDE_def ATTRIBUTES_def)
qed

theorem Event_dispatch_witness:
  "menu_reachable DbusMenu_init \<and>
   Event HIDE ''clicked'' (VInt 0) 0 DbusMenu_init =
     (Inr (), DbusMenu_init\<lparr> view := [ViewHide] \<rparr>) \<and>
   Event SHOW ''hovered'' (VInt 0) 0 DbusMenu_init = (Inr (), DbusMenu_init) \<and>
   Event HIDE ''x-vendor-ping'' (VInt 0) 0 DbusMenu_init = (Inr (), DbusMenu_init) \<and>
   Event 7 ''clicked'' (VInt 0) 0 DbusMenu_init = (Inl KeyError, DbusMenu_init)"
proof -
  have v: "view DbusMenu_init = []"
    by (simp add: DbusMenu_init_def)
  have k: "SHOW \<in> {0, SHOW, HIDE}" "HIDE \<in> {0, SHOW, HIDE}" "7 \<notin> {0, SHOW, HIDE}"
    "''hovered'' \<notin> set (ATTRIBUTES @ [''submenu'', ''clicked''])"
    "''x-vendor-ping'' \<notin> set (ATTRIBUTES @ [''submenu'', ''clicked''])"
    by (simp_all add: SHOW_def HIDE_def ATTRIBUTES_def)
  from Event_dispatch [OF menu_init, of "VInt 0" 0 SHOW "''hovered''"]
       Event_dispatch [OF menu_init, of "VInt 0" 0 HIDE "''x-vendor-ping''"]
       Event_dispatch [OF menu_init, of "VInt 0" 0 7 "''clicked''"]
  show ?thesis
    using k v menu_init by simp
qed

text \<open>
  Claim C3 as it is written makes \<open>Event\<close> a silent no-op for an id that is not in the
  model. The code indexes \<open>self.items[idx]\<close> first: the unknown id 9999 raises
  \<open>KeyError\<close>.
\<close>

theorem Event_unknown_id_counterexample:
  "Event 9999 ''clicked'' (VInt 0) 0 DbusMenu_init = (Inl KeyError, DbusMenu_init)"
  by (simp add: Event_def DbusMenu_init_def SHOW_def HIDE_def)

subsection \<open>Visibility updates\<close>

text \<open>
  Claim C5. In every state of the menu, \<open>update_menu v\<close> returns normally; afterwards
  the Show entry's \<open>visible\<close> is \<open>not v\<close> and the Hide entry's is \<open>v\<close>; exactly one
  \<open>ItemsPropertiesUpdated\<close> signal has been added, whose payload is the current
  rendering, with all properties, of the entries of the model in their order (the root,
  Show, Hide), and whose second argument is empty;
  \<open>GetGroupProperties([SHOW, HIDE], ["visible"])\<close> then reads the two flags back, and
  a further call with the opposite argument flips both.
\<close>

theorem update_menu_visibility:
  assumes "menu_reachable m"
  shows "fst (update_menu v m) = Inr () \<and>
         GetProperty (snd (update_menu v m)) SHOW ''visible'' = Inr (VBool (\<not> v)) \<and>
         GetProperty (snd (update_menu v m)) HIDE ''visible'' = Inr (VBool v) \<and>
         (\<exists>payload.
            menu_signals (snd (update_menu v m)) =
              menu_signals m @ [ItemsPropertiesUpdated payload []] \<and>
            GetGroupProperties (snd (update_menu v m)) [0, SHOW, HIDE] None = Inr payload) \<and>
         GetGroupProperties (snd (update_menu v m)) [SHOW, HIDE] (Some [''visible'']) =
           Inr [(SHOW, [(''visible'', VBool (\<not> v))]), (HIDE, [(''visible'', VBool v)])] \<and>
         GetGroupProperties (snd (update_menu (\<not> v) (snd (update_menu v m))))
             [SHOW, HIDE] (Some [''visible'']) =
           Inr [(SHOW, [(''visible'', VBool v)]), (HIDE, [(''visible'', VBool (\<not> v))])]"
proof -
  from assms obtain b where its: "items m = menu_items b"
    using menu_reachable_items by blast
  have ok: "fst (update_menu v m) = Inr ()"
    using its by (rule update_menu_menu_items(1))
  have its': "items (snd (update_menu v m)) = menu_items v"
    using its by (rule update_menu_menu_items(2))
  have its'': "items (snd (update_menu (\<not> v) (snd (update_menu v m)))) = menu_items (\<not> v)"
    using its' by (rule update_menu_menu_items(2))
  have show_vis: "GetProperty (snd (update_menu v m)) SHOW ''visible'' = Inr (VBool (\<not> v))"
    by (simp add: GetProperty_def its' menu_items_eq SHOW_def)
  have hide_vis: "GetProperty (snd (update_menu v m)) HIDE ''visible'' = Inr (VBool v)"
    by (simp add: GetProperty_def its' menu_items_eq HIDE_def)
  have sig: "\<exists>payload.
      menu_signals (snd (update_menu v m)) =
        menu_signals m @ [ItemsPropertiesUpdated payload []] \<and>
      GetGroupProperties (snd (update_menu v m)) [0, SHOW, HIDE] None = Inr payload"
    by (simp add: GetGroupProperties_def its' its menu_items_eq menu_eval)
  have grp: "GetGroupProperties (snd (update_menu v m)) [SHOW, HIDE] (Some [''visible'']) =
      Inr [(SHOW, [(''visible'', VBool (\<not> v))]), (HIDE, [(''visible'', VBool v)])]"
    by (simp add: GetGroupProperties_def its' menu_items_eq SHOW_def HIDE_def
          render_item_def selected_properties_def)
  have grp': "GetGroupProperties (snd (update_menu (\<not> v) (snd (update_menu v m))))
        [SHOW, HIDE] (Some [''visible'']) =
      Inr [(SHOW, [(''visible'', VBool v)]), (HIDE, [(''visible'', VBool (\<not> v))])]"
    by (simp add: GetGroupProperties_def its'' menu_items_eq SHOW_def HIDE_def
          render_item_def selected_properties_def)
  from ok show_vis hide_vis sig grp grp' show ?thesis
    by blast
qed

theorem update_menu_visibility_witness:
  "menu_reachable DbusMenu_init \<and>
   fst (update_menu True DbusMenu_init) = Inr () \<and>
   GetGroupProperties (snd (update_menu True DbusMenu_init)) [SHOW, HIDE] (Some [''visible'']) =
     Inr [(SHOW, [(''visible'', VBool False)]), (HIDE, [(''visible'', VBool True)])] \<and>
   GetGroupProperties (snd (update_menu False (snd (update_menu True DbusMenu_init))))
       [SHOW, HIDE] (Some [''visible'']) =
     Inr [(SHOW, [(''visible'', VBool True)]), (HIDE, [(''visible'', VBool False)])] \<and>
   length (menu_signals (snd (update_menu True DbusMenu_init))) = 1"
proof -
  have s: "menu_signals DbusMenu_init = []"
    by (simp add: DbusMenu_init_def)
  from update_menu_visibility [OF menu_init, of True] menu_init s
  show ?thesis
    by auto
qed

subsection \<open>Group property queries\<close>

lemma dict_comprehension_succeeds:
  "set ks \<subseteq> fst ` set item \<Longrightarrow> \<exists>r. dict_comprehension item ks acc = Inr r"
proof (induction ks arbitrary: acc)
  case Nil
  show ?case by simp
next
  case (Cons k ks)
  from Cons.prems have "k \<in> fst ` set item" by simp
  then obtain v where v: "map_of item k = Some v"
    by (metis map_of_eq_None_iff not_Some_eq)
  from Cons.prems have "set ks \<subseteq> fst ` set item" by simp
  then show ?case
    using Cons.IH v by simp
qed

lemma render_item_succeeds:
  "set (selected_properties property_names) \<subseteq> fst ` set item \<Longrightarrow>
   \<exists>props. render_item item property_names = Inr props"
  by (simp add: render_item_def dict_comprehension_succeeds)

lemma group_properties_present:
  assumes "\<forall>idx\<in>set ids. \<forall>item. map_of its idx = Some item \<longrightarrow>
             set (selected_properties property_names) \<subseteq> fst ` set item"
  shows "\<exists>rs. group_properties its ids property_names = Inr rs \<and>
           map fst rs = filter (\<lambda>idx. map_of its idx \<noteq> None) ids \<and>
           (\<forall>(idx, props)\<in>set rs. \<exists>item. map_of its idx = Some item \<and>
               render_item item property_names = Inr props)"
  using assms
proof (induction ids)
  case Nil
  show ?case by simp
next
  case (Cons idx ids)
  from Cons obtain rs where rs: "group_properties its ids property_names = Inr rs"
    "map fst rs = filter (\<lambda>idx. map_of its idx \<noteq> None) ids"
    "\<forall>(idx, props)\<in>set rs. \<exists>item. map_of its idx = Some item \<and>
               render_item item property_names = Inr props"
    by auto
  show ?case
  proof (cases "map_of its idx")
    case None
    with rs show ?thesis by simp
  next
    case (Some item)
    with Cons.prems have "set (selected_properties property_names) \<subseteq> fst ` set item"
      by simp
    then obtain props where "render_item item property_names = Inr props"
      using render_item_succeeds by blast
    with Some rs show ?thesis by simp
  qed
qed

text \<open>
  Claim C9, as the code has it. Take any state of the menu, any list of ids and any
  property filter such that every entry the list selects has all the properties the
  filter names (an absent or empty filter names the eight of \<open>ATTRIBUTES\<close>). Then
  \<open>GetGroupProperties\<close> returns normally; the ids of its result are the ids of the list
  that are in the model, in the order of the list and as often as the list has them; each
  comes with the rendering of its entry under the filter. The ids that are not in the
  model are dropped without an error.
\<close>

theorem GetGroupProperties_present_ids:
  assumes "\<forall>idx\<in>set ids. \<forall>item. map_of (items m) idx = Some item \<longrightarrow>
             set (selected_properties property_names) \<subseteq> fst ` set item"
  shows "\<exists>rs. GetGroupProperties m ids property_names = Inr rs \<and>
           map fst rs = filter (\<lambda>idx. map_of (items m) idx \<noteq> None) ids \<and>
           (\<forall>(idx, props)\<in>set rs. \<exists>item. map_of (items m) idx = Some item \<and>
               render_item item property_names = Inr props)"
  unfolding GetGroupProperties_def using assms by (rule group_properties_present)

theorem GetGroupProperties_present_ids_witness:
  "\<exists>rs. GetGroupProperties DbusMenu_init [5, HIDE, 7, SHOW, HIDE] (Some [''visible'']) = Inr rs \<and>
        map fst rs = [HIDE, SHOW, HIDE]"
proof -
  have h: "\<forall>idx\<in>set [5, HIDE, 7, SHOW, HIDE]. \<forall>item.
      map_of (items DbusMenu_init) idx = Some item \<longrightarrow>
      set (selected_properties (Some [''visible''])) \<subseteq> fst ` set item"
    by (simp add: DbusMenu_init_def SHOW_def HIDE_def selected_properties_def)
  have f: "filter (\<lambda>idx. map_of (items DbusMenu_init) idx \<noteq> None) [5, HIDE, 7, SHOW, HIDE] =
      [HIDE, SHOW, HIDE]"
    by (simp add: DbusMenu_init_def SHOW_def HIDE_def)
  from GetGroupProperties_present_ids [OF h] show ?thesis
    unfolding f by (elim exE conjE) (intro exI conjI, assumption+)
qed

text \<open>
  Claim C9 as it is written covers every property filter. A filter that names a
  property the selected entry does not have makes the call fail: \<open>icon-name\<close> on the
  Show entry raises \<open>KeyError\<close>.
\<close>

theorem GetGroupProperties_unknown_property_counterexample:
  "GetGroupProperties DbusMenu_init [SHOW] (Some [''icon-name'']) = Inl KeyError"
  by (simp add: GetGroupProperties_def DbusMenu_init_def SHOW_def HIDE_def
        render_item_def selected_properties_def)

subsection \<open>The keys of rendered property maps\<close>

lemma render_item_no_filter_keys:
  assumes "property_names = None \<or> property_names = Some []"
    and "render_item item property_names = Inr props"
  shows "map fst props = ATTRIBUTES"
proof -
  from assms(1) have sel: "selected_properties property_names = ATTRIBUTES"
    by (auto simp add: selected_properties_def)
  from assms(2) show ?thesis
    unfolding render_item_def sel ATTRIBUTES_def
    by (auto split: option.splits)
qed

lemma render_children_keys:
  assumes "property_names = None \<or> property_names = Some []"
  shows "render_children its ids property_names = Inr ls \<Longrightarrow>
         \<forall>l\<in>set ls. \<forall>props\<in>set (layout_properties l). map fst props = ATTRIBUTES"
proof (induction ids arbitrary: ls)
  case Nil
  then show ?case by simp
next
  case (Cons idx ids)
  then show ?case
    using render_item_no_filter_keys [OF assms]
    by (auto split: option.splits sum.splits)
qed

lemma render_submenu_keys:
  assumes "property_names = None \<or> property_names = Some []"
    and "render_submenu its item property_names = Inr ls"
  shows "\<forall>l\<in>set ls. \<forall>props\<in>set (layout_properties l). map fst props = ATTRIBUTES"
  using assms(2) render_children_keys [OF assms(1)]
  by (auto simp add: render_submenu_def split: option.splits val.splits if_splits)

lemma group_properties_keys:
  assumes "property_names = None \<or> property_names = Some []"
  shows "group_properties its ids property_names = Inr rs \<Longrightarrow>
         \<forall>(idx, props)\<in>set rs. map fst props = ATTRIBUTES"
proof (induction ids arbitrary: rs)
  case Nil
  then show ?case by simp
next
  case (Cons idx ids)
  then show ?case
    using render_item_no_filter_keys [OF assms]
    by (auto split: option.splits sum.splits)
qed

lemma render_all_keys:
  "render_all its = Inr payload \<Longrightarrow> \<forall>(idx, props)\<in>set payload. map fst props = ATTRIBUTES"
proof (induction its arbitrary: payload)
  case Nil
  then show ?case by simp
next
  case (Cons entry its)
  obtain idx item where e: "entry = (idx, item)" by (cases entry)
  have k: "\<And>props. render_item item None = Inr props \<Longrightarrow> map fst props = ATTRIBUTES"
    by (rule render_item_no_filter_keys) simp_all
  from Cons show ?case
    unfolding e using k by (auto split: sum.splits)
qed

lemma update_menu_payload_keys:
  assumes "update_menu v m = (Inr (), m')"
  shows "\<exists>payload. menu_signals m' = menu_signals m @ [ItemsPropertiesUpdated payload []] \<and>
           (\<forall>(idx, props)\<in>set payload. map fst props = ATTRIBUTES)"
  using assms render_all_keys
  by (fastforce simp add: update_menu_def split: sum.splits)

lemma menu_reachable_renders:
  assumes "menu_reachable m" and "(idx, item) \<in> set (items m)"
    and "property_names = None \<or> property_names = Some []"
  shows "\<exists>props. render_item item property_names = Inr props"
proof -
  from assms(1) obtain b where its: "items m = menu_items b"
    using menu_reachable_items by blast
  from assms(3) have sel: "selected_properties property_names = ATTRIBUTES"
    by (auto simp add: selected_properties_def)
  from assms(2) show ?thesis
    unfolding its menu_items_eq render_item_def sel ATTRIBUTES_def by auto
qed

text \<open>
  Claim C10. With an absent or an empty property filter, every property map that
  \<open>_render_item\<close> returns has exactly the eight keys of \<open>ATTRIBUTES\<close>, in that order;
  so has every property map in a layout returned by \<open>GetLayout\<close>, in a result of
  \<open>GetGroupProperties\<close>, and in the payload of the signal that \<open>update_menu\<close> emits.
  Neither \<open>clicked\<close> nor \<open>submenu\<close> is among the eight. In every state of the menu
  each entry of the model does render under such a filter.
\<close>

theorem rendered_properties_are_ATTRIBUTES:
  assumes "property_names = None \<or> property_names = Some []"
  shows "(render_item item property_names = Inr props \<longrightarrow> map fst props = ATTRIBUTES) \<and>
         (GetLayout m parent_id recursion_depth property_names = Inr (r, l) \<longrightarrow>
            (\<forall>props\<in>set (layout_properties l). map fst props = ATTRIBUTES)) \<and>
         (GetGroupProperties m ids property_names = Inr rs \<longrightarrow>
            (\<forall>(idx, props)\<in>set rs. map fst props = ATTRIBUTES)) \<and>
         (update_menu v m = (Inr (), m') \<longrightarrow>
            (\<exists>payload. menu_signals m' = menu_signals m @ [ItemsPropertiesUpdated payload []] \<and>
               (\<forall>(idx, props)\<in>set payload. map fst props = ATTRIBUTES))) \<and>
         (menu_reachable m \<and> (idx, item) \<in> set (items m) \<longrightarrow>
            (\<exists>props. render_item item property_names = Inr props)) \<and>
         ATTRIBUTES = [''children-display'', ''disposition'', ''enabled'', ''label'',
            ''toggle-state'', ''toggle-type'', ''type'', ''visible''] \<and>
         ''clicked'' \<notin> set ATTRIBUTES \<and> ''submenu'' \<notin> set ATTRIBUTES"
proof -
  have a: "render_item item property_names = Inr props \<longrightarrow> map fst props = ATTRIBUTES"
    using render_item_no_filter_keys [OF assms] by blast
  have b: "GetLayout m parent_id recursion_depth property_names = Inr (r, l) \<longrightarrow>
            (\<forall>props\<in>set (layout_properties l). map fst props = ATTRIBUTES)"
    using render_item_no_filter_keys [OF assms] render_submenu_keys [OF assms]
    by (auto simp add: GetLayout_def split: option.splits sum.splits)
  have c: "GetGroupProperties m ids property_names = Inr rs \<longrightarrow>
            (\<forall>(idx, props)\<in>set rs. map fst props = ATTRIBUTES)"
    using group_properties_keys [OF assms] by (simp add: GetGroupProperties_def)
  have d: "update_menu v m = (Inr (), m') \<longrightarrow>
            (\<exists>payload. menu_signals m' = menu_signals m @ [ItemsPropertiesUpdated payload []] \<and>
               (\<forall>(idx, props)\<in>set payload. map fst props = ATTRIBUTES))"
    using update_menu_payload_keys by blast
  have e: "menu_reachable m \<and> (idx, item) \<in> set (items m) \<longrightarrow>
            (\<exists>props. render_item item property_names = Inr props)"
    using menu_reachable_renders assms by blast
  have f: "ATTRIBUTES = [''children-display'', ''disposition'', ''enabled'', ''label'',
            ''toggle-state'', ''toggle-type'', ''type'', ''visible''] \<and>
         ''clicked'' \<notin> set ATTRIBUTES \<and> ''submenu'' \<notin> set ATTRIBUTES"
    by (simp add: ATTRIBUTES_def)
  from a b c d e f show ?thesis by blast
qed


theorem rendered_properties_are_ATTRIBUTES_witness:
  "(\<exists>r l. GetLayout DbusMenu_init 0 (- 1) None = Inr (r, l) \<and>
      (\<forall>props\<in>set (layout_properties l). map fst props = ATTRIBUTES) \<and>
      length (layout_properties l) = 3) \<and>
   (\<exists>rs. GetGroupProperties DbusMenu_init [SHOW, HIDE] (Some []) = Inr rs \<and>
      (\<forall>(idx, props)\<in>set rs. map fst props = ATTRIBUTES) \<and> length rs = 2) \<and>
   (\<exists>payload. menu_signals (snd (update_menu False DbusMenu_init)) =
        [ItemsPropertiesUpdated payload []] \<and>
      (\<forall>(idx, props)\<in>set payload. map fst props = ATTRIBUTES))"
proof -
  have n: "(None :: string list option) = None \<or> (None :: string list option) = Some []"
    by simp
  have e: "Some [] = None \<or> Some ([] :: string list) = Some []"
    by simp
  obtain r l where g: "GetLayout DbusMenu_init 0 (- 1) None = Inr (r, l)"
    and gl: "length (layout_properties l) = 3"
    by (simp add: GetLayout_def render_submenu_def menu_eval)
  obtain rs where p: "GetGroupProperties DbusMenu_init [SHOW, HIDE] (Some []) = Inr rs"
    and pl: "length rs = 2"
    by (simp add: GetGroupProperties_def menu_eval)
  have u: "update_menu False DbusMenu_init = (Inr (), snd (update_menu False DbusMenu_init))"
    using update_menu_menu_items(1) [OF items_init, of False]
    by (metis prod.collapse)
  have s: "menu_signals DbusMenu_init = []"
    by (simp add: DbusMenu_init_def)
  from rendered_properties_are_ATTRIBUTES
         [OF n, where m = DbusMenu_init and parent_id = 0 and recursion_depth = "- 1"
            and r = r and l = l and v = False and m' = "snd (update_menu False DbusMenu_init)"]
       rendered_properties_are_ATTRIBUTES
         [OF e, where m = DbusMenu_init and ids = "[SHOW, HIDE]" and rs = rs]
       g gl p pl u s
  show ?thesis
    by auto
qed

section \<open>Properties of the plugin\<close>

subsection \<open>Session events\<close>

text \<open>
  Claim C8. For an activated plugin whose item status is \<open>Passive\<close>, the handler of
  session-start followed by the handler of session-end leaves the item status
  \<open>Passive\<close>, and the item object has emitted exactly two signals more: the
  \<open>Status\<close> change to \<open>Active\<close>, then the \<open>Status\<close> change to \<open>Passive\<close>. (The
  signal of the menu object that session-start also causes is a signal of that other
  object.) The witness is the plugin right after \<open>configure\<close> and \<open>activate\<close> with no
  session running.
\<close>

theorem session_start_then_end:
  assumes "is_activated p" and "status (status_item p) = Passive"
  shows "status (status_item (on_session_stop (on_session_start p))) = Passive \<and>
         item_signals (status_item (on_session_stop (on_session_start p))) =
           item_signals (status_item p) @
             [PropertiesChanged STATUS_NOTIFIER_ITEM_IFACE [(''Status'', DStr Active)] [],
              PropertiesChanged STATUS_NOTIFIER_ITEM_IFACE [(''Status'', DStr Passive)] []]"
proof -
  have neq: "Passive \<noteq> Active"
    by (simp add: Passive_def Active_def)
  define p1 where "p1 = plugin_change_status Active p"
  have p1: "is_activated p1" "status (status_item p1) = Active"
    "item_signals (status_item p1) = item_signals (status_item p) @
       [PropertiesChanged STATUS_NOTIFIER_ITEM_IFACE [(''Status'', DStr Active)] []]"
    using assms neq by (simp_all add: p1_def plugin_change_status_def change_status_def)
  define p2 where "p2 = snd (change_visibility True p1)"
  have p2: "is_activated p2" "status_item p2 = status_item p1"
    using p1(1) by (simp_all add: p2_def change_visibility_def split: prod.splits)
  have start: "on_session_start p = p2"
    by (simp add: on_session_start_def p1_def p2_def)
  show ?thesis
    unfolding start on_session_stop_def
    using p1 p2 neq by (simp add: plugin_change_status_def change_status_def)
qed

theorem session_start_then_end_witness:
  "status (status_item (on_session_stop (on_session_start (activate False configure)))) = Passive \<and>
   item_signals (status_item (on_session_stop (on_session_start (activate False configure)))) =
     [PropertiesChanged STATUS_NOTIFIER_ITEM_IFACE [(''Status'', DStr Active)] [],
      PropertiesChanged STATUS_NOTIFIER_ITEM_IFACE [(''Status'', DStr Passive)] []]"
proof -
  have a: "is_activated (activate False configure)"
    by (simp add: activate_def configure_def)
  have b: "status (status_item (activate False configure)) = Passive"
    by (simp add: activate_def configure_def StatusNotifierItem_init_def)
  have c: "item_signals (status_item (activate False configure)) = []"
    by (simp add: activate_def configure_def StatusNotifierItem_init_def)
  from session_start_then_end [OF a b] show ?thesis
    by (simp add: c)
qed

subsection \<open>Icon names\<close>

declare decimal.simps [simp del]

lemma round_half_even_near: "\<bar>x - of_int (round_half_even x)\<bar> \<le> 1 / 2"
proof -
  have "of_int \<lfloor>x\<rfloor> \<le> x" "x < of_int \<lfloor>x\<rfloor> + 1"
    by linarith+
  then show ?thesis
    by (auto simp add: round_half_even_def Let_def)
qed

lemma round_half_even_nearest:
  "\<bar>x - of_int (round_half_even x)\<bar> \<le> \<bar>x - of_int k\<bar>"
proof (cases "k = round_half_even x")
  case True
  then show ?thesis by simp
next
  case False
  then have "1 \<le> \<bar>round_half_even x - k\<bar>"
    by linarith
  then have "(1::rat) \<le> of_int \<bar>round_half_even x - k\<bar>"
    by linarith
  then have "(1::rat) \<le> \<bar>of_int (round_half_even x) - of_int k\<bar>"
    by simp
  with round_half_even_near [of x] show ?thesis
    by linarith
qed

lemma round_half_even_range:
  assumes "0 \<le> x" and "x \<le> 100"
  shows "0 \<le> round_half_even x" and "round_half_even x \<le> 100"
proof -
  have fl: "of_int \<lfloor>x\<rfloor> \<le> x" "x < of_int \<lfloor>x\<rfloor> + 1"
    by linarith+
  have f0: "0 \<le> \<lfloor>x\<rfloor>"
    using assms(1) by simp
  have f100: "\<lfloor>x\<rfloor> \<le> 100"
    using assms(2) by (simp add: floor_le_iff)
  show "0 \<le> round_half_even x"
    using f0 by (simp add: round_half_even_def Let_def)
  show "round_half_even x \<le> 100"
  proof (cases "\<lfloor>x\<rfloor> = 100")
    case True
    with fl(1) assms(2) have "x - of_int \<lfloor>x\<rfloor> = 0"
      by simp
    with True show ?thesis
      by (simp add: round_half_even_def Let_def)
  next
    case False
    with f100 have "\<lfloor>x\<rfloor> \<le> 99" by linarith
    then show ?thesis
      by (simp add: round_half_even_def Let_def)
  qed
qed

lemma decimal_one_digit: "n < 10 \<Longrightarrow> decimal n = [digit n]"
  by (subst decimal.simps) simp

lemma decimal_two_digits:
  "10 \<le> n \<Longrightarrow> n < 100 \<Longrightarrow> decimal n = [digit (n div 10), digit (n mod 10)]"
  by (subst decimal.simps) (simp add: decimal_one_digit)

lemma decimal_100: "decimal 100 = ''100''"
  by (simp add: decimal.simps digit_def)

lemma format_02_0f_nonneg:
  "0 \<le> x \<Longrightarrow>
   format_02_0f x =
     replicate (2 - length (decimal (nat (round_half_even x)))) (CHR ''0'') @
     decimal (nat (round_half_even x))"
  by (simp add: format_02_0f_def Let_def)

text \<open>
  Claim C7. For every percent from 0 to 100 the icon name is \<open>tomate-\<close> followed by the
  decimal digits of a whole number \<open>n\<close> from 0 to 100 that is nearest to percent (no
  integer is nearer; the distance is at most one half), with one leading zero when
  \<open>n\<close> has a single digit: two characters for \<open>n\<close> below 100, and \<open>100\<close> itself.
  99.6 gives \<open>100\<close>, as the rational 996/10 and as the binary floating-point number
  nearest to it, 3504363460047667 / 2^45; 0 gives \<open>00\<close>. Nothing is clamped: 250
  gives \<open>250\<close>.
\<close>

theorem icon_name_rounds_and_pads:
  "(0 \<le> percent \<and> percent \<le> 100 \<longrightarrow>
      (\<exists>n\<le>100.
         (\<forall>k. \<bar>percent - of_nat n\<bar> \<le> \<bar>percent - of_int k\<bar>) \<and>
         \<bar>percent - of_nat n\<bar> \<le> 1 / 2 \<and>
         plugin_icon_name percent =
           ''tomate-'' @ (if n < 10 then CHR ''0'' # decimal n else decimal n) \<and>
         (n < 10 \<longrightarrow> decimal n = [digit n]) \<and>
         (10 \<le> n \<and> n < 100 \<longrightarrow> decimal n = [digit (n div 10), digit (n mod 10)]) \<and>
         (n = 100 \<longrightarrow> decimal n = ''100''))) \<and>
   plugin_icon_name (996 / 10) = ''tomate-100'' \<and>
   plugin_icon_name (3504363460047667 / 35184372088832) = ''tomate-100'' \<and>
   plugin_icon_name 0 = ''tomate-00'' \<and>
   plugin_icon_name 250 = ''tomate-250''"
proof (intro conjI impI)
  assume range: "0 \<le> percent \<and> percent \<le> 100"
  then have assms: "0 \<le> percent" "percent \<le> 100"
    by simp_all
  show "\<exists>n\<le>100.
         (\<forall>k. \<bar>percent - of_nat n\<bar> \<le> \<bar>percent - of_int k\<bar>) \<and>
         \<bar>percent - of_nat n\<bar> \<le> 1 / 2 \<and>
         plugin_icon_name percent =
           ''tomate-'' @ (if n < 10 then CHR ''0'' # decimal n else decimal n) \<and>
         (n < 10 \<longrightarrow> decimal n = [digit n]) \<and>
         (10 \<le> n \<and> n < 100 \<longrightarrow> decimal n = [digit (n div 10), digit (n mod 10)]) \<and>
         (n = 100 \<longrightarrow> decimal n = ''100'')"
  proof -
    define n where "n = nat (round_half_even percent)"
    have r: "0 \<le> round_half_even percent" "round_half_even percent \<le> 100"
      using assms by (rule round_half_even_range)+
    have n: "of_nat n = (of_int (round_half_even percent) :: rat)"
      using r(1) by (simp add: n_def)
    have le: "n \<le> 100"
      using r by (simp add: n_def)
    have nearest: "\<forall>k. \<bar>percent - of_nat n\<bar> \<le> \<bar>percent - of_int k\<bar>"
      unfolding n using round_half_even_nearest by blast
    have near: "\<bar>percent - of_nat n\<bar> \<le> 1 / 2"
      unfolding n by (rule round_half_even_near)
    have d1: "n < 10 \<longrightarrow> decimal n = [digit n]"
      by (simp add: decimal_one_digit)
    have d2: "10 \<le> n \<and> n < 100 \<longrightarrow> decimal n = [digit (n div 10), digit (n mod 10)]"
      by (simp add: decimal_two_digits)
    have d3: "n = 100 \<longrightarrow> decimal n = ''100''"
      by (simp add: decimal_100)
    have name: "plugin_icon_name percent =
        ''tomate-'' @ (if n < 10 then CHR ''0'' # decimal n else decimal n)"
    proof -
      consider "n < 10" | "10 \<le> n" "n < 100" | "n = 100"
        using le by linarith
      then show ?thesis
      proof cases
        case 1
        then show ?thesis
          using assms(1) by (simp add: plugin_icon_name_def format_02_0f_nonneg n_def [symmetric]
              decimal_one_digit)
      next
        case 2
        then show ?thesis
          using assms(1) by (simp add: plugin_icon_name_def format_02_0f_nonneg n_def [symmetric]
              decimal_two_digits)
      next
        case 3
        then show ?thesis
          using assms(1) by (simp add: plugin_icon_name_def format_02_0f_nonneg n_def [symmetric]
              decimal_100)
      qed
    qed
    from le nearest near name d1 d2 d3 show ?thesis
      by blast
  qed
next
  show "plugin_icon_name (996 / 10) = ''tomate-100''"
    by code_simp
next
  show "plugin_icon_name (3504363460047667 / 35184372088832) = ''tomate-100''"
    by code_simp
next
  show "plugin_icon_name 0 = ''tomate-00''"
    by code_simp
next
  show "plugin_icon_name 250 = ''tomate-250''"
    by code_simp
qed

theorem icon_name_rounds_and_pads_witness:
  "(\<exists>n\<le>100. \<bar>(372 / 10 :: rat) - of_nat n\<bar> \<le> 1 / 2 \<and>
      plugin_icon_name (372 / 10) =
        ''tomate-'' @ (if n < 10 then CHR ''0'' # decimal n else decimal n)) \<and>
   plugin_icon_name (372 / 10) = ''tomate-37'' \<and>
   plugin_icon_name (996 / 10) = ''tomate-100'' \<and>
   plugin_icon_name 0 = ''tomate-00''"
proof -
  have r: "(0::rat) \<le> 372 / 10 \<and> (372 / 10 :: rat) \<le> 100"
    by simp
  have e: "plugin_icon_name (372 / 10) = ''tomate-37''"
    by code_simp
  from icon_name_rounds_and_pads [of "372 / 10"] r e show ?thesis
    by blast
qed

end
